theory Spec2Isabelle
  imports Complex_Main
begin

section \<open>The nginx proxy controller (src/server/controller/nginx-proxy.ts)\<close>

text \<open>
  The controller compiles a stored proxy definition (\<open>NginxProxy\<close>) into a configuration
  tree (\<open>NginxConfig\<close>) and wraps the compiler in four operations on the repository of
  definitions. JavaScript's \<open>undefined\<close> is \<open>None\<close>; a property read on \<open>undefined\<close>
  raises a \<open>TypeError\<close>, which is the \<open>Inl\<close> branch of a sum; a rejected promise is
  \<open>Inl\<close> as well.
\<close>

subsection \<open>JavaScript values and truthiness\<close>

text \<open>
  A JavaScript number is a double: not-a-number, an infinity, or a finite value. Comparison
  of finite doubles is exact, so a finite double is the rational it denotes.
\<close>

datatype js_number = NaN | Finite rat | PosInfinity | NegInfinity

datatype js_value =
  JUndefined | JNull | JBoolean bool | JNumber js_number | JString string

fun typeof :: "js_value \<Rightarrow> string" where
  "typeof JUndefined = ''undefined''"
| "typeof JNull = ''object''"
| "typeof (JBoolean b) = ''boolean''"
| "typeof (JNumber n) = ''number''"
| "typeof (JString s) = ''string''"

text \<open>\<open>n > 0\<close> on a number: false for NaN.\<close>

fun gt_zero :: "js_number \<Rightarrow> bool" where
  "gt_zero NaN = False"
| "gt_zero (Finite q) = (0 < q)"
| "gt_zero PosInfinity = True"
| "gt_zero NegInfinity = False"

text \<open>
  Truthiness of a possibly undefined boolean, of a possibly undefined string (the empty
  string is falsy) and of a possibly undefined object or array (every object is truthy,
  the empty array too).
\<close>

definition truthy_bool :: "bool option \<Rightarrow> bool" where
  "truthy_bool b = (b = Some True)"

definition truthy_string :: "string option \<Rightarrow> bool" where
  "truthy_string s = (case s of None \<Rightarrow> False | Some t \<Rightarrow> t \<noteq> [])"

definition truthy_object :: "'a option \<Rightarrow> bool" where
  "truthy_object x = (x \<noteq> None)"

text \<open>
  A template literal \<open>`${n}`\<close> of an integer that a double holds exactly (magnitude
  below \<open>2^53\<close>), where JavaScript prints its decimal digits, and of \<open>undefined\<close>.
  Beyond that range JavaScript prints the shortest digits that round-trip, and from
  \<open>10^21\<close> on an exponent; the function below does not follow it there.
\<close>

definition digit :: "nat \<Rightarrow> char" where
  "digit n = ''0123456789'' ! (n mod 10)"

fun decimal :: "nat \<Rightarrow> string" where
  "decimal n = (if n < 10 then [digit n] else decimal (n div 10) @ [digit n])"

declare decimal.simps [simp del]

definition ToString :: "int option \<Rightarrow> string" where
  "ToString v =
     (case v of
        None \<Rightarrow> ''undefined''
      | Some n \<Rightarrow> (if n < 0 then ''-'' @ decimal (nat (- n)) else decimal (nat n)))"

subsection \<open>Entities\<close>

text \<open>
  Modelled from the spec: the entity classes of \<open>../entity\<close> (\<open>NginxProxy\<close>, its
  application with its machines, its certificate) are not part of the source file. Their
  fields are the ones the controller reads and writes, with the types of the spec's data
  model; a field that may be \<open>undefined\<close> at run time is an option. The six TLS policy
  fields are opaque to the controller, so their type is a parameter \<open>'v\<close>.
\<close>

record Mechine =
  host :: string
  disabled :: "bool option"

record Application =
  key :: string
  mechines :: "Mechine list option"

record Certificate =
  crt :: string
  crtKey :: string

record 'v NginxProxy =
  id_proxy :: "int option"
  domains :: "string option"
  enableHttp :: "bool option"
  enableHttps :: "bool option"
  redirectHttps :: "bool option"
  application :: "Application option"
  certificate :: "Certificate option"
  sslCiphers :: 'v
  sslPreferServerCiphers :: 'v
  sslProtocols :: 'v
  sslSessionCache :: 'v
  sslSessionTimeout :: 'v
  sslStapling :: 'v

subsection \<open>The configuration tree\<close>

text \<open>
  Modelled from the spec: the types of \<open>../utils/nginx-config-parser\<close> are not part of
  the source file. Their fields are the ones the controller assigns; a field the
  controller leaves out of an object literal is an option. Of the two enumerations the
  controller uses the members \<open>On\<close> and \<open>Permanent\<close>; the other members are nginx's.
\<close>

datatype NginxFuzzyBoolean = On | Off

datatype NginxRewriteMode = Last | Break | Redirect | Permanent

record NginxHeader =
  key_header :: string
  value_header :: string

record NginxRewrite =
  from_rewrite :: string
  to_rewrite :: string
  mode_rewrite :: NginxRewriteMode

record NginxLocation =
  path :: string
  sendFile :: "NginxFuzzyBoolean option"
  proxySetHeader :: "NginxHeader list option"
  proxyPass :: "string option"
  rewrite :: "NginxRewrite option"

record 'v NginxSSLConfig =
  certificate_ssl :: string
  certificateKey :: string
  sessionTimeout :: 'v
  protocols :: 'v
  ciphers :: 'v
  sessionCache :: 'v
  preferServerCiphers :: 'v
  stapling :: 'v

record NginxUpstreamServer =
  host_upstream :: string

record NginxUpstreamConfig =
  name :: string
  servers :: "NginxUpstreamServer list"

record 'v NginxServer =
  serviceName :: "string option"
  location :: "NginxLocation list option"
  ssl :: "'v NginxSSLConfig option"

record 'v NginxConfig =
  upstream :: "NginxUpstreamConfig option"
  http :: "'v NginxServer option"
  https :: "'v NginxServer option"

subsection \<open>The compiler\<close>

datatype js_error = TypeError

definition hasMechines :: "'v NginxProxy \<Rightarrow> bool" where
  "hasMechines proxy =
     (case application proxy of
        None \<Rightarrow> False
      | Some a \<Rightarrow> truthy_object (mechines a))"

definition genServiceLocation :: "string \<Rightarrow> NginxLocation" where
  "genServiceLocation upstreamName =
     (let location = \<lparr>path = ''/'', sendFile = None, proxySetHeader = None,
                       proxyPass = None, rewrite = None\<rparr>;
          location = location\<lparr>sendFile := Some On\<rparr>;
          location = location\<lparr>proxySetHeader := Some
            [\<lparr>key_header = ''X-Real-IP'', value_header = ''$remote_addr''\<rparr>,
             \<lparr>key_header = ''Host'', value_header = ''$http_host''\<rparr>]\<rparr>;
          location = location\<lparr>proxyPass := Some (''http://'' @ upstreamName)\<rparr>
      in location)"

definition genRedirectHttpsLocation :: NginxLocation where
  "genRedirectHttpsLocation =
     (let location = \<lparr>path = ''/'', sendFile = None, proxySetHeader = None,
                       proxyPass = None, rewrite = None\<rparr>;
          location = location\<lparr>rewrite := Some
            \<lparr>from_rewrite = ''^/(.*)'', to_rewrite = ''https://$server_name$1'',
             mode_rewrite = Permanent\<rparr>\<rparr>
      in location)"

text \<open>Reading \<open>proxy.certificate.crt\<close> raises when the certificate is undefined.\<close>

definition genNginxSSL :: "'v NginxProxy \<Rightarrow> js_error + 'v NginxSSLConfig" where
  "genNginxSSL proxy =
     (case certificate proxy of
        None \<Rightarrow> Inl TypeError
      | Some c \<Rightarrow> Inr
          \<lparr>certificate_ssl = crt c,
           certificateKey = crtKey c,
           sessionTimeout = sslSessionTimeout proxy,
           protocols = sslProtocols proxy,
           ciphers = sslCiphers proxy,
           sessionCache = sslSessionCache proxy,
           preferServerCiphers = sslPreferServerCiphers proxy,
           stapling = sslStapling proxy\<rparr>)"

text \<open>
  Reading \<open>proxy.application.mechines\<close> raises when the application is undefined, and
  calling \<open>.filter\<close> on it raises when the machines are undefined.
\<close>

definition genNginxUpstream :: "'v NginxProxy \<Rightarrow> js_error + NginxUpstreamConfig" where
  "genNginxUpstream proxy =
     (case application proxy of
        None \<Rightarrow> Inl TypeError
      | Some a \<Rightarrow>
          (case mechines a of
             None \<Rightarrow> Inl TypeError
           | Some ms \<Rightarrow>
               (let servers =
                      map (\<lambda>mechine. \<lparr>host_upstream = host mechine\<rparr>)
                        (filter (\<lambda>mechine. \<not> truthy_bool (disabled mechine)) ms)
                in Inr \<lparr>name = key a @ ''_'' @ ToString (id_proxy proxy),
                        servers = servers\<rparr>)))"

text \<open>
  The compiler. The blocks are local objects filled in by straight-line assignments, so
  each is built in one step: \<open>location = []\<close> followed by the conditional \<open>push\<close> is the
  list of that one location or the empty list.
\<close>

definition genNginxConfig :: "'v NginxProxy \<Rightarrow> js_error + 'v NginxConfig" where
  "genNginxConfig proxy =
     (let config = \<lparr>upstream = None, http = None, https = None\<rparr> in
      if \<not> truthy_string (domains proxy) then Inr config
      else
        case (if hasMechines proxy
              then (case genNginxUpstream proxy of
                      Inl e \<Rightarrow> Inl e
                    | Inr u \<Rightarrow> Inr (config\<lparr>upstream := Some u\<rparr>))
              else Inr config) of
          Inl e \<Rightarrow> Inl e
        | Inr config \<Rightarrow>
            (let config =
                   (if truthy_bool (enableHttp proxy)
                    then config\<lparr>http := Some
                           \<lparr>serviceName = domains proxy,
                            location = Some
                              (if truthy_bool (redirectHttps proxy)
                               then [genRedirectHttpsLocation]
                               else (case upstream config of
                                       Some u \<Rightarrow> [genServiceLocation (name u)]
                                     | None \<Rightarrow> [])),
                            ssl = None\<rparr>\<rparr>
                    else config)
             in if truthy_bool (enableHttps proxy) \<and> truthy_object (certificate proxy)
                then (case genNginxSSL proxy of
                        Inl e \<Rightarrow> Inl e
                      | Inr s \<Rightarrow> Inr (config\<lparr>https := Some
                          \<lparr>serviceName = domains proxy,
                           location = Some
                             (case upstream config of
                                Some u \<Rightarrow> [genServiceLocation (name u)]
                              | None \<Rightarrow> []),
                           ssl = Some s\<rparr>\<rparr>))
                else Inr config))"

subsection \<open>The controller's operations\<close>

text \<open>\<open>validateId\<close>: the conjunction short-circuits, so \<open>id > 0\<close> is read on a number only.\<close>

definition validateId :: "js_value \<Rightarrow> bool" where
  "validateId v =
     (typeof v = ''number'' \<and> (case v of JNumber n \<Rightarrow> gt_zero n | _ \<Rightarrow> False))"

text \<open>A positive number, in the words of the specification.\<close>

definition positive_number :: "js_value \<Rightarrow> bool" where
  "positive_number v =
     (case v of
        JNumber (Finite q) \<Rightarrow> 0 < q
      | JNumber PosInfinity \<Rightarrow> True
      | _ \<Rightarrow> False)"

type_synonym Path = string

datatype ErrorMessage = illegalId | noNginxProxy

text \<open>What a rejected promise carries: a \<open>ServerError\<close> with its status, or a run-time error.\<close>

datatype error = ServerError nat ErrorMessage | JsError js_error

text \<open>
  The \<open>options\<close> argument of \<open>create\<close> and \<open>update\<close>, untyped in the source: the fields
  the two operations destructure, each possibly undefined.
\<close>

record 'v options =
  id_opt :: js_value
  domains_opt :: "string option"
  enableHttp_opt :: "bool option"
  enableHttps_opt :: "bool option"
  application_opt :: "Application option"
  certificate_opt :: "Certificate option"
  sslCiphers_opt :: 'v
  sslPreferServerCiphers_opt :: 'v
  sslProtocols_opt :: 'v
  sslSessionCache_opt :: 'v
  sslSessionTimeout_opt :: 'v
  sslStapling_opt :: 'v

text \<open>
  The collaborators are libraries (typeorm's repository, fs-extra, path) and parts of the
  repository that the source file imports (\<open>stringify\<close>, \<open>NGINX_CONF_DIR\<close>, the constructor
  of the entity): they are parameters of the operations. The repository works on a store
  \<open>'db\<close>, the file functions on a file system \<open>'fs\<close>; \<open>save\<close> returns the entity as it
  leaves it (with its generated id). Every call of a collaborator is recorded, in order,
  in the trace of the world. Console output is left out, and so are failures of the
  collaborators themselves.
\<close>

record ('db, 'fs, 'v) env =
  repo_find :: "'db \<Rightarrow> 'v NginxProxy list"
  repo_findOne :: "'db \<Rightarrow> js_value \<Rightarrow> 'v NginxProxy option"
  repo_save :: "'db \<Rightarrow> 'v NginxProxy \<Rightarrow> 'db \<times> 'v NginxProxy"
  repo_delete :: "'db \<Rightarrow> js_value \<Rightarrow> 'db"
  fs_ensureDir :: "'fs \<Rightarrow> Path \<Rightarrow> 'fs"
  fs_writeFile :: "'fs \<Rightarrow> Path \<Rightarrow> string \<Rightarrow> 'fs"
  fs_pathExists :: "'fs \<Rightarrow> Path \<Rightarrow> bool"
  fs_remove :: "'fs \<Rightarrow> Path \<Rightarrow> 'fs"
  path_join :: "Path \<Rightarrow> string \<Rightarrow> Path"
  stringify :: "'v NginxConfig \<Rightarrow> string"
  NGINX_CONF_DIR :: Path
  new_NginxProxy :: "'v NginxProxy"

datatype 'v event =
  Find
| FindOne js_value
| Save "'v NginxProxy"
| Delete js_value
| EnsureDir Path
| WriteFile Path string
| PathExists Path
| Remove Path

record ('db, 'fs, 'v) world =
  db :: 'db
  fs :: 'fs
  trace :: "'v event list"

definition getNginxConfigPath :: "('db, 'fs, 'v) env \<Rightarrow> 'v NginxProxy \<Rightarrow> Path" where
  "getNginxConfigPath env config =
     (let filename = ToString (id_proxy config)
      in path_join env (NGINX_CONF_DIR env) filename)"

definition apply_proxy ::
  "('db, 'fs, 'v) env \<Rightarrow> 'v NginxProxy \<Rightarrow> ('db, 'fs, 'v) world
     \<Rightarrow> (error + unit) \<times> ('db, 'fs, 'v) world" where
  "apply_proxy env proxy w =
     (case genNginxConfig proxy of
        Inl e \<Rightarrow> (Inl (JsError e), w)
      | Inr config \<Rightarrow>
          (let CONFIG_PATH = getNginxConfigPath env proxy;
               w = w\<lparr>fs := fs_ensureDir env (fs w) (NGINX_CONF_DIR env),
                      trace := trace w @ [EnsureDir (NGINX_CONF_DIR env)]\<rparr>;
               w = w\<lparr>fs := fs_writeFile env (fs w) CONFIG_PATH (stringify env config),
                      trace := trace w @ [WriteFile CONFIG_PATH (stringify env config)]\<rparr>
           in (Inr (), w)))"

definition getList ::
  "('db, 'fs, 'v) env \<Rightarrow> ('db, 'fs, 'v) world
     \<Rightarrow> (error + 'v NginxProxy list) \<times> ('db, 'fs, 'v) world" where
  "getList env w = (Inr (repo_find env (db w)), w\<lparr>trace := trace w @ [Find]\<rparr>)"

definition getInfo ::
  "('db, 'fs, 'v) env \<Rightarrow> js_value \<Rightarrow> ('db, 'fs, 'v) world
     \<Rightarrow> (error + 'v NginxProxy) \<times> ('db, 'fs, 'v) world" where
  "getInfo env i w =
     (if validateId i then (Inl (ServerError 400 illegalId), w)
      else
        (let w = w\<lparr>trace := trace w @ [FindOne i]\<rparr>
         in case repo_findOne env (db w) i of
              None \<Rightarrow> (Inl (ServerError 404 noNginxProxy), w)
            | Some nginxProxy \<Rightarrow> (Inr nginxProxy, w)))"

definition create ::
  "('db, 'fs, 'v) env \<Rightarrow> 'v options \<Rightarrow> ('db, 'fs, 'v) world
     \<Rightarrow> (error + 'v NginxProxy) \<times> ('db, 'fs, 'v) world" where
  "create env opts w =
     (if validateId (id_opt opts) then (Inl (ServerError 400 illegalId), w)
      else
        (let nginxProxy = new_NginxProxy env;
             nginxProxy = nginxProxy\<lparr>domains := domains_opt opts\<rparr>;
             nginxProxy = nginxProxy\<lparr>enableHttp := enableHttp_opt opts\<rparr>;
             nginxProxy = nginxProxy\<lparr>enableHttps := enableHttps_opt opts\<rparr>;
             nginxProxy = nginxProxy\<lparr>application := application_opt opts\<rparr>;
             nginxProxy = nginxProxy\<lparr>certificate := certificate_opt opts\<rparr>;
             nginxProxy = nginxProxy\<lparr>sslCiphers := sslCiphers_opt opts\<rparr>;
             nginxProxy = nginxProxy\<lparr>sslPreferServerCiphers := sslPreferServerCiphers_opt opts\<rparr>;
             nginxProxy = nginxProxy\<lparr>sslProtocols := sslProtocols_opt opts\<rparr>;
             nginxProxy = nginxProxy\<lparr>sslSessionCache := sslSessionCache_opt opts\<rparr>;
             nginxProxy = nginxProxy\<lparr>sslSessionTimeout := sslSessionTimeout_opt opts\<rparr>;
             nginxProxy = nginxProxy\<lparr>sslStapling := sslStapling_opt opts\<rparr>;
             saved = repo_save env (db w) nginxProxy;
             w = w\<lparr>db := fst saved, trace := trace w @ [Save nginxProxy]\<rparr>;
             nginxProxy = snd saved
         in case apply_proxy env nginxProxy w of
              (Inl e, w) \<Rightarrow> (Inl e, w)
            | (Inr _, w) \<Rightarrow> (Inr nginxProxy, w)))"

definition update ::
  "('db, 'fs, 'v) env \<Rightarrow> js_value \<Rightarrow> 'v options \<Rightarrow> ('db, 'fs, 'v) world
     \<Rightarrow> (error + 'v NginxProxy) \<times> ('db, 'fs, 'v) world" where
  "update env i opts w =
     (if validateId i then (Inl (ServerError 400 illegalId), w)
      else
        (let w = w\<lparr>trace := trace w @ [FindOne i]\<rparr>
         in case repo_findOne env (db w) i of
              None \<Rightarrow> (Inl (ServerError 404 noNginxProxy), w)
            | Some nginxProxy \<Rightarrow>
                (let nginxProxy =
                       (if truthy_string (domains_opt opts)
                        then nginxProxy\<lparr>domains := domains_opt opts\<rparr> else nginxProxy);
                     nginxProxy =
                       (if truthy_bool (enableHttp_opt opts)
                        then nginxProxy\<lparr>enableHttp := enableHttp_opt opts\<rparr> else nginxProxy);
                     nginxProxy =
                       (if truthy_bool (enableHttps_opt opts)
                        then nginxProxy\<lparr>enableHttps := enableHttps_opt opts\<rparr> else nginxProxy);
                     nginxProxy =
                       (if truthy_object (application_opt opts)
                        then nginxProxy\<lparr>application := application_opt opts\<rparr> else nginxProxy);
                     nginxProxy =
                       (if truthy_object (certificate_opt opts)
                        then nginxProxy\<lparr>certificate := certificate_opt opts\<rparr> else nginxProxy);
                     saved = repo_save env (db w) nginxProxy;
                     w = w\<lparr>db := fst saved, trace := trace w @ [Save nginxProxy]\<rparr>;
                     nginxProxy = snd saved
                 in case apply_proxy env nginxProxy w of
                      (Inl e, w) \<Rightarrow> (Inl e, w)
                    | (Inr _, w) \<Rightarrow> (Inr nginxProxy, w))))"

definition remove ::
  "('db, 'fs, 'v) env \<Rightarrow> js_value \<Rightarrow> ('db, 'fs, 'v) world
     \<Rightarrow> (error + unit) \<times> ('db, 'fs, 'v) world" where
  "remove env i w =
     (if validateId i then (Inl (ServerError 400 illegalId), w)
      else
        (let w = w\<lparr>trace := trace w @ [FindOne i]\<rparr>
         in case repo_findOne env (db w) i of
              None \<Rightarrow> (Inl (ServerError 404 noNginxProxy), w)
            | Some nginxProxy \<Rightarrow>
                (let w = w\<lparr>db := repo_delete env (db w) i, trace := trace w @ [Delete i]\<rparr>;
                     CONFIG_PATH = getNginxConfigPath env nginxProxy;
                     w = w\<lparr>trace := trace w @ [PathExists CONFIG_PATH]\<rparr>
                 in if fs_pathExists env (fs w) CONFIG_PATH
                    then (Inr (), w\<lparr>fs := fs_remove env (fs w) CONFIG_PATH,
                                    trace := trace w @ [Remove CONFIG_PATH]\<rparr>)
                    else (Inr (), w))))"

subsection \<open>How nginx reads the redirect rule\<close>

text \<open>
  nginx matches the path of a request against the pattern of a rewrite rule and, on a
  match, builds the target from the replacement, in which \<open>$1\<close> stands for the first
  group of the match and \<open>$server_name\<close> for the name of the server block. Only the
  pattern the controller emits is read: \<open>^/(.*)\<close> matches a path that begins with a
  slash, and its group is what follows that slash.
\<close>

definition match_pattern :: "string \<Rightarrow> string \<Rightarrow> string option" where
  "match_pattern pattern uri =
     (if pattern = ''^/(.*)''
      then (case uri of
              [] \<Rightarrow> None
            | c # rest \<Rightarrow> (if c = CHR ''/'' then Some rest else None))
      else None)"

fun expand_replacement :: "string \<Rightarrow> string \<Rightarrow> string \<Rightarrow> string" where
  "expand_replacement server_name group1 [] = []"
| "expand_replacement server_name group1 (c # cs) =
     (if c = CHR ''$'' \<and> take 11 cs = ''server_name''
      then server_name @ expand_replacement server_name group1 (drop 11 cs)
      else if c = CHR ''$'' \<and> take 1 cs = ''1''
      then group1 @ expand_replacement server_name group1 (drop 1 cs)
      else c # expand_replacement server_name group1 cs)"

definition rewrite_target :: "NginxRewrite \<Rightarrow> string \<Rightarrow> string \<Rightarrow> string option" where
  "rewrite_target r server_name uri =
     (case match_pattern (from_rewrite r) uri of
        None \<Rightarrow> None
      | Some group1 \<Rightarrow> Some (expand_replacement server_name group1 (to_rewrite r)))"

text \<open>
  The HTTPS equivalent of a request, in the words of the specification: the same path on
  the same server name, under \<open>https\<close>.
\<close>

definition https_equivalent :: "string \<Rightarrow> string \<Rightarrow> string" where
  "https_equivalent server_name uri = ''https://'' @ server_name @ uri"

subsection \<open>Sample inputs\<close>

text \<open>
  A definition with every part present: HTTP and HTTPS enabled, no redirect, a certificate,
  and an application \<open>api\<close> with one enabled and one disabled machine.
\<close>

definition example_proxy :: "string NginxProxy" where
  "example_proxy =
     \<lparr>id_proxy = Some 7, domains = Some ''a.com'', enableHttp = Some True,
      enableHttps = Some True, redirectHttps = Some False,
      application = Some \<lparr>key = ''api'', mechines = Some
        [\<lparr>host = ''10.0.0.1'', disabled = Some False\<rparr>,
         \<lparr>host = ''10.0.0.2'', disabled = Some True\<rparr>]\<rparr>,
      certificate = Some \<lparr>crt = ''/etc/ssl/a.crt'', crtKey = ''/etc/ssl/a.key''\<rparr>,
      sslCiphers = ''HIGH:!aNULL:!MD5'', sslPreferServerCiphers = ''on'',
      sslProtocols = ''TLSv1.2 TLSv1.3'', sslSessionCache = ''shared:SSL:1m'',
      sslSessionTimeout = ''5m'', sslStapling = ''off''\<rparr>"

text \<open>
  Collaborators in memory: the store is a list of rows under the value they are looked up
  by, the file system a list of files; \<open>save\<close> gives a new entity the next free id.
\<close>

definition example_env ::
  "((js_value \<times> string NginxProxy) list, (Path \<times> string) list, string) env" where
  "example_env =
     \<lparr>repo_find = map snd,
      repo_findOne = map_of,
      repo_save = (\<lambda>rows p.
        (case id_proxy p of
           None \<Rightarrow>
             (let q = p\<lparr>id_proxy := Some (int (length rows) + 1)\<rparr>
              in ((JNumber (Finite (of_nat (length rows) + 1)), q) # rows, q))
         | Some n \<Rightarrow> ((JNumber (Finite (of_int n)), p) # rows, p))),
      repo_delete = (\<lambda>rows i. filter (\<lambda>r. fst r \<noteq> i) rows),
      fs_ensureDir = (\<lambda>files d. files),
      fs_writeFile = (\<lambda>files f content. (f, content) # filter (\<lambda>r. fst r \<noteq> f) files),
      fs_pathExists = (\<lambda>files f. map_of files f \<noteq> None),
      fs_remove = (\<lambda>files f. filter (\<lambda>r. fst r \<noteq> f) files),
      path_join = (\<lambda>d f. d @ ''/'' @ f),
      stringify = (\<lambda>c. case upstream c of None \<Rightarrow> [] | Some u \<Rightarrow> name u),
      NGINX_CONF_DIR = ''/etc/nginx/conf.d'',
      new_NginxProxy = example_proxy\<lparr>id_proxy := None, redirectHttps := None\<rparr>\<rparr>"

text \<open>A world whose store holds the sample definition under the string \<open>7\<close>.\<close>

definition example_world ::
  "((js_value \<times> string NginxProxy) list, (Path \<times> string) list, string) world" where
  "example_world = \<lparr>db = [(JString ''7'', example_proxy)], fs = [], trace = []\<rparr>"

definition example_options :: "string options" where
  "example_options =
     \<lparr>id_opt = JUndefined, domains_opt = Some [], enableHttp_opt = Some False,
      enableHttps_opt = None, application_opt = None,
      certificate_opt = Some \<lparr>crt = ''/etc/ssl/b.crt'', crtKey = ''/etc/ssl/b.key''\<rparr>,
      sslCiphers_opt = ''LOW'', sslPreferServerCiphers_opt = ''off'',
      sslProtocols_opt = ''TLSv1'', sslSessionCache_opt = ''none'',
      sslSessionTimeout_opt = ''1m'', sslStapling_opt = ''on''\<rparr>"

section \<open>Properties of the compiler\<close>

lemmas compiler_defs =
  genNginxConfig_def hasMechines_def genNginxUpstream_def genNginxSSL_def
  truthy_bool_def truthy_string_def truthy_object_def Let_def

lemmas sample_defs =
  example_proxy_def ToString_def decimal.simps digit_def
  genServiceLocation_def genRedirectHttpsLocation_def

lemma genNginxConfig_total: "\<exists>c. genNginxConfig proxy = Inr c"
  by (auto simp: compiler_defs split: option.splits)

lemma genNginxUpstream_guarded:
  "hasMechines proxy \<Longrightarrow> \<exists>u. genNginxUpstream proxy = Inr u"
  by (auto simp: compiler_defs split: option.splits)

lemma genNginxSSL_guarded:
  "truthy_object (certificate proxy) \<Longrightarrow> \<exists>s. genNginxSSL proxy = Inr s"
  by (auto simp: compiler_defs split: option.splits)

text \<open>
  What decides the pool: with domains present, a pool is attached exactly when the
  application and its collection of machines are both defined, whatever the collection holds.
\<close>

lemma upstream_attached_iff:
  assumes "truthy_string (domains proxy)"
  shows "\<exists>c. genNginxConfig proxy = Inr c \<and>
    (upstream c \<noteq> None \<longleftrightarrow>
       (\<exists>a ms. application proxy = Some a \<and> mechines a = Some ms))"
  using assms by (auto simp: compiler_defs split: option.splits)

text \<open>
  Claim C1. A pool is attached if and only if the application has a non-empty collection
  of machines. The code tests the collection for truthiness only, and an empty array is
  truthy: for the sample definition with the application's machines replaced by the empty
  list (and both protocols off), \<open>hasMechines\<close> holds and the compiler attaches a pool
  \<open>api_7\<close> with no servers.
\<close>

theorem empty_collection_attaches_pool:
  "hasMechines
     (example_proxy\<lparr>enableHttp := None, enableHttps := None,
                     application := Some \<lparr>key = ''api'', mechines = Some []\<rparr>\<rparr>) \<and>
   genNginxConfig
     (example_proxy\<lparr>enableHttp := None, enableHttps := None,
                     application := Some \<lparr>key = ''api'', mechines = Some []\<rparr>\<rparr>) =
     Inr \<lparr>upstream = Some \<lparr>name = ''api_7'', servers = []\<rparr>, http = None, https = None\<rparr>"
  by (simp add: compiler_defs sample_defs)

text \<open>
  Claim C2. When the domains are absent or empty the compiler returns the empty tree: no
  pool, no HTTP block and no HTTPS block, whatever else the definition holds.
\<close>

theorem no_domains_empty_tree:
  "\<not> truthy_string (domains proxy) \<Longrightarrow>
     genNginxConfig proxy = Inr \<lparr>upstream = None, http = None, https = None\<rparr>"
  by (simp add: genNginxConfig_def)

theorem no_domains_empty_tree_witness:
  "\<not> truthy_string (domains (example_proxy\<lparr>domains := None\<rparr>)) \<and>
   \<not> truthy_string (domains (example_proxy\<lparr>domains := Some []\<rparr>)) \<and>
   genNginxConfig (example_proxy\<lparr>domains := None\<rparr>) =
     Inr \<lparr>upstream = None, http = None, https = None\<rparr> \<and>
   genNginxConfig (example_proxy\<lparr>domains := Some []\<rparr>) =
     Inr \<lparr>upstream = None, http = None, https = None\<rparr>"
  using no_domains_empty_tree [of "example_proxy\<lparr>domains := None\<rparr>"]
    no_domains_empty_tree [of "example_proxy\<lparr>domains := Some []\<rparr>"]
  by (simp add: truthy_string_def)

text \<open>
  Claim C3. For a definition whose application has a collection with at least one enabled
  machine, the pool the upstream builder makes is named \<open>{key}_{id}\<close> and lists, in the
  collection's order, the hosts of exactly the machines whose \<open>disabled\<close> is not true; the
  list is not empty. Whenever the compiled tree has a pool it is this one, and it has one
  as soon as the domains are present.
\<close>

theorem upstream_pool_contents:
  assumes "application proxy = Some a" and "mechines a = Some ms"
    and "\<exists>m \<in> set ms. disabled m \<noteq> Some True"
  shows "genNginxUpstream proxy = Inr
           \<lparr>name = key a @ ''_'' @ ToString (id_proxy proxy),
            servers = map (\<lambda>m. \<lparr>host_upstream = host m\<rparr>)
                        (filter (\<lambda>m. disabled m \<noteq> Some True) ms)\<rparr>
     \<and> filter (\<lambda>m. disabled m \<noteq> Some True) ms \<noteq> []
     \<and> (\<forall>c u. genNginxConfig proxy = Inr c \<and> upstream c = Some u \<longrightarrow>
           name u = key a @ ''_'' @ ToString (id_proxy proxy) \<and>
           map host_upstream (servers u) =
             map host (filter (\<lambda>m. disabled m \<noteq> Some True) ms))
     \<and> (truthy_string (domains proxy) \<longrightarrow>
           (\<exists>c u. genNginxConfig proxy = Inr c \<and> upstream c = Some u))"
proof -
  have pool: "genNginxUpstream proxy = Inr
           \<lparr>name = key a @ ''_'' @ ToString (id_proxy proxy),
            servers = map (\<lambda>m. \<lparr>host_upstream = host m\<rparr>)
                        (filter (\<lambda>m. disabled m \<noteq> Some True) ms)\<rparr>"
    using assms(1,2) by (simp add: genNginxUpstream_def truthy_bool_def)
  have nonempty: "filter (\<lambda>m. disabled m \<noteq> Some True) ms \<noteq> []"
    using assms(3) by (simp add: filter_empty_conv)
  have attached: "\<forall>c u. genNginxConfig proxy = Inr c \<and> upstream c = Some u \<longrightarrow>
           name u = key a @ ''_'' @ ToString (id_proxy proxy) \<and>
           map host_upstream (servers u) =
             map host (filter (\<lambda>m. disabled m \<noteq> Some True) ms)"
    using assms(1,2)
    by (auto simp: compiler_defs comp_def split: option.splits if_splits)
  have present: "truthy_string (domains proxy) \<longrightarrow>
           (\<exists>c u. genNginxConfig proxy = Inr c \<and> upstream c = Some u)"
    using assms(1,2) by (auto simp: compiler_defs split: option.splits)
  from pool nonempty attached present show ?thesis by blast
qed

theorem upstream_pool_contents_witness:
  "application example_proxy = Some \<lparr>key = ''api'', mechines = Some
       [\<lparr>host = ''10.0.0.1'', disabled = Some False\<rparr>,
        \<lparr>host = ''10.0.0.2'', disabled = Some True\<rparr>]\<rparr> \<and>
   genNginxUpstream example_proxy =
     Inr \<lparr>name = ''api_7'', servers = [\<lparr>host_upstream = ''10.0.0.1''\<rparr>]\<rparr> \<and>
   (\<exists>c u. genNginxConfig example_proxy = Inr c \<and> upstream c = Some u)"
  using upstream_pool_contents [of example_proxy
      "\<lparr>key = ''api'', mechines = Some
         [\<lparr>host = ''10.0.0.1'', disabled = Some False\<rparr>,
          \<lparr>host = ''10.0.0.2'', disabled = Some True\<rparr>]\<rparr>"
      "[\<lparr>host = ''10.0.0.1'', disabled = Some False\<rparr>,
        \<lparr>host = ''10.0.0.2'', disabled = Some True\<rparr>]"]
  by (simp add: sample_defs truthy_string_def)

text \<open>
  Claim C4. With domains present and HTTPS enabled, the tree has an HTTPS block if and only
  if the definition has a certificate; without one the compiler still returns a tree. The
  block carries the domains as its service name, an SSL block that copies the certificate's
  \<open>crt\<close> and \<open>crtKey\<close> and the six TLS fields unchanged, and one proxy location targeting
  the pool when the tree has a pool, no location otherwise.
\<close>

theorem https_block_iff_certificate:
  assumes "truthy_string (domains proxy)" and "enableHttps proxy = Some True"
  shows "\<exists>c. genNginxConfig proxy = Inr c \<and>
     (https c \<noteq> None \<longleftrightarrow> certificate proxy \<noteq> None) \<and>
     (\<forall>cert. certificate proxy = Some cert \<longrightarrow>
        https c = Some
          \<lparr>serviceName = domains proxy,
           location = Some
             (case upstream c of
                Some u \<Rightarrow>
                  [\<lparr>path = ''/'', sendFile = Some On,
                    proxySetHeader = Some
                      [\<lparr>key_header = ''X-Real-IP'', value_header = ''$remote_addr''\<rparr>,
                       \<lparr>key_header = ''Host'', value_header = ''$http_host''\<rparr>],
                    proxyPass = Some (''http://'' @ name u), rewrite = None\<rparr>]
              | None \<Rightarrow> []),
           ssl = Some
             \<lparr>certificate_ssl = crt cert,
              certificateKey = crtKey cert,
              sessionTimeout = sslSessionTimeout proxy,
              protocols = sslProtocols proxy,
              ciphers = sslCiphers proxy,
              sessionCache = sslSessionCache proxy,
              preferServerCiphers = sslPreferServerCiphers proxy,
              stapling = sslStapling proxy\<rparr>\<rparr>)"
  using assms
  by (auto simp: compiler_defs genServiceLocation_def split: option.splits)

theorem https_block_iff_certificate_witness:
  "truthy_string (domains example_proxy) \<and> enableHttps example_proxy = Some True \<and>
   (\<exists>c. genNginxConfig example_proxy = Inr c \<and>
      upstream c = Some \<lparr>name = ''api_7'', servers = [\<lparr>host_upstream = ''10.0.0.1''\<rparr>]\<rparr> \<and>
      https c = Some
        \<lparr>serviceName = Some ''a.com'',
         location = Some
           [\<lparr>path = ''/'', sendFile = Some On,
             proxySetHeader = Some
               [\<lparr>key_header = ''X-Real-IP'', value_header = ''$remote_addr''\<rparr>,
                \<lparr>key_header = ''Host'', value_header = ''$http_host''\<rparr>],
             proxyPass = Some ''http://api_7'', rewrite = None\<rparr>],
         ssl = Some
           \<lparr>certificate_ssl = ''/etc/ssl/a.crt'', certificateKey = ''/etc/ssl/a.key'',
            sessionTimeout = ''5m'', protocols = ''TLSv1.2 TLSv1.3'',
            ciphers = ''HIGH:!aNULL:!MD5'', sessionCache = ''shared:SSL:1m'',
            preferServerCiphers = ''on'', stapling = ''off''\<rparr>\<rparr>) \<and>
   (\<exists>c. genNginxConfig (example_proxy\<lparr>certificate := None\<rparr>) = Inr c \<and> https c = None)"
  using https_block_iff_certificate [of example_proxy]
    https_block_iff_certificate [of "example_proxy\<lparr>certificate := None\<rparr>"]
  by (simp add: compiler_defs sample_defs)

text \<open>
  The shape of the HTTP block under the redirect. With domains present, HTTP enabled and
  the redirect on, the block has exactly one location, with path \<open>/\<close> and a permanent
  rewrite of \<open>^/(.*)\<close> to \<open>https://$server_name$1\<close>, whether or not the tree has a pool.
\<close>

lemma http_redirect_location:
  assumes "truthy_string (domains proxy)" and "enableHttp proxy = Some True"
    and "redirectHttps proxy = Some True"
  shows "\<exists>c h. genNginxConfig proxy = Inr c \<and> http c = Some h \<and>
     serviceName h = domains proxy \<and>
     location h = Some
       [\<lparr>path = ''/'', sendFile = None, proxySetHeader = None, proxyPass = None,
         rewrite = Some \<lparr>from_rewrite = ''^/(.*)'', to_rewrite = ''https://$server_name$1'',
                         mode_rewrite = Permanent\<rparr>\<rparr>]"
  using assms
  by (auto simp: compiler_defs genRedirectHttpsLocation_def split: option.splits)

lemma http_redirect_location_witness:
  "truthy_string (domains (example_proxy\<lparr>redirectHttps := Some True\<rparr>)) \<and>
   enableHttp (example_proxy\<lparr>redirectHttps := Some True\<rparr>) = Some True \<and>
   redirectHttps (example_proxy\<lparr>redirectHttps := Some True\<rparr>) = Some True \<and>
   (\<exists>c h. genNginxConfig (example_proxy\<lparr>redirectHttps := Some True\<rparr>) = Inr c \<and>
      upstream c \<noteq> None \<and> http c = Some h \<and>
      location h = Some
        [\<lparr>path = ''/'', sendFile = None, proxySetHeader = None, proxyPass = None,
          rewrite = Some \<lparr>from_rewrite = ''^/(.*)'', to_rewrite = ''https://$server_name$1'',
                          mode_rewrite = Permanent\<rparr>\<rparr>]) \<and>
   (\<exists>c h. genNginxConfig
             (example_proxy\<lparr>redirectHttps := Some True, application := None\<rparr>) = Inr c \<and>
      upstream c = None \<and> http c = Some h \<and>
      location h = Some
        [\<lparr>path = ''/'', sendFile = None, proxySetHeader = None, proxyPass = None,
          rewrite = Some \<lparr>from_rewrite = ''^/(.*)'', to_rewrite = ''https://$server_name$1'',
                          mode_rewrite = Permanent\<rparr>\<rparr>])"
  using http_redirect_location [of "example_proxy\<lparr>redirectHttps := Some True\<rparr>"]
    http_redirect_location
      [of "example_proxy\<lparr>redirectHttps := Some True, application := None\<rparr>"]
  by (simp add: compiler_defs sample_defs)

text \<open>
  Where that rule sends a request: the group of \<open>^/(.*)\<close> leaves out the leading slash and
  the replacement puts none back, so the server name and the rest of the path run together.
\<close>

lemma rewrite_target_redirect:
  "rewrite genRedirectHttpsLocation = Some r \<Longrightarrow>
     rewrite_target r server_name (CHR ''/'' # rest) = Some (''https://'' @ server_name @ rest)"
  by (auto simp: rewrite_target_def match_pattern_def genRedirectHttpsLocation_def)

text \<open>
  Claim C5. With domains present, HTTP enabled and the redirect on, the HTTP block has
  exactly one location, of redirect kind: path \<open>/\<close> and a permanent rewrite from \<open>^/(.*)\<close>
  to the HTTPS equivalent on the same server name. The block and its one location are as
  claimed, but the rewrite does not lead to the HTTPS equivalent: for the sample definition
  with the redirect on, the rule the compiler emits sends \<open>/foo/bar\<close> on \<open>a.com\<close> to
  \<open>https://a.comfoo/bar\<close>, while the HTTPS equivalent is \<open>https://a.com/foo/bar\<close>.
\<close>

theorem redirect_drops_leading_slash:
  "genNginxConfig
     (example_proxy\<lparr>enableHttps := None, redirectHttps := Some True,
                     application := None\<rparr>) =
     Inr \<lparr>upstream = None,
          http = Some
            \<lparr>serviceName = Some ''a.com'',
             location = Some
               [\<lparr>path = ''/'', sendFile = None, proxySetHeader = None, proxyPass = None,
                 rewrite = Some
                   \<lparr>from_rewrite = ''^/(.*)'', to_rewrite = ''https://$server_name$1'',
                    mode_rewrite = Permanent\<rparr>\<rparr>],
             ssl = None\<rparr>,
          https = None\<rparr> \<and>
   rewrite_target
     \<lparr>from_rewrite = ''^/(.*)'', to_rewrite = ''https://$server_name$1'',
      mode_rewrite = Permanent\<rparr> ''a.com'' ''/foo/bar'' = Some ''https://a.comfoo/bar'' \<and>
   https_equivalent ''a.com'' ''/foo/bar'' = ''https://a.com/foo/bar''"
  by (simp add: compiler_defs sample_defs rewrite_target_def match_pattern_def
      https_equivalent_def)

text \<open>
  Claim C6. With domains present, HTTP enabled and the redirect not on, the HTTP block is
  emitted with the domains as its service name. If the tree has a pool, the block has
  exactly one location, the proxy one: path \<open>/\<close>, the headers \<open>X-Real-IP\<close> and \<open>Host\<close>, and
  the target \<open>http://{pool name}\<close>. If the tree has no pool, the block has no location.
\<close>

theorem http_proxy_location:
  assumes "truthy_string (domains proxy)" and "enableHttp proxy = Some True"
    and "redirectHttps proxy \<noteq> Some True"
  shows "\<exists>c h. genNginxConfig proxy = Inr c \<and> http c = Some h \<and>
     serviceName h = domains proxy \<and>
     (\<forall>u. upstream c = Some u \<longrightarrow>
        location h = Some
          [\<lparr>path = ''/'', sendFile = Some On,
            proxySetHeader = Some
              [\<lparr>key_header = ''X-Real-IP'', value_header = ''$remote_addr''\<rparr>,
               \<lparr>key_header = ''Host'', value_header = ''$http_host''\<rparr>],
            proxyPass = Some (''http://'' @ name u), rewrite = None\<rparr>]) \<and>
     (upstream c = None \<longrightarrow> location h = Some [])"
  using assms
  by (auto simp: compiler_defs genServiceLocation_def split: option.splits)

theorem http_proxy_location_witness:
  "truthy_string (domains example_proxy) \<and> enableHttp example_proxy = Some True \<and>
   redirectHttps example_proxy \<noteq> Some True \<and>
   (\<exists>c h. genNginxConfig example_proxy = Inr c \<and> http c = Some h \<and>
      serviceName h = Some ''a.com'' \<and>
      location h = Some
        [\<lparr>path = ''/'', sendFile = Some On,
          proxySetHeader = Some
            [\<lparr>key_header = ''X-Real-IP'', value_header = ''$remote_addr''\<rparr>,
             \<lparr>key_header = ''Host'', value_header = ''$http_host''\<rparr>],
          proxyPass = Some ''http://api_7'', rewrite = None\<rparr>]) \<and>
   (\<exists>c h. genNginxConfig (example_proxy\<lparr>application := None\<rparr>) = Inr c \<and>
      upstream c = None \<and> http c = Some h \<and>
      serviceName h = Some ''a.com'' \<and> location h = Some [])"
  using http_proxy_location [of example_proxy]
    http_proxy_location [of "example_proxy\<lparr>application := None\<rparr>"]
  by (simp add: compiler_defs sample_defs)

text \<open>
  Claim C7. When neither HTTP nor HTTPS is enabled, or the domains are absent or empty, the
  tree has neither an HTTP block nor an HTTPS block. With domains present, both flags off
  and an application with machines, the pool is attached and still no block is.
\<close>

theorem no_blocks_when_disabled:
  assumes "(enableHttp proxy \<noteq> Some True \<and> enableHttps proxy \<noteq> Some True)
           \<or> \<not> truthy_string (domains proxy)"
  shows "\<exists>c. genNginxConfig proxy = Inr c \<and> http c = None \<and> https c = None"
  using assms
  by (auto simp: compiler_defs split: option.splits)

theorem no_blocks_when_disabled_witness:
  "enableHttp (example_proxy\<lparr>enableHttp := Some False, enableHttps := Some False\<rparr>)
     \<noteq> Some True \<and>
   enableHttps (example_proxy\<lparr>enableHttp := Some False, enableHttps := Some False\<rparr>)
     \<noteq> Some True \<and>
   (\<exists>c. genNginxConfig
           (example_proxy\<lparr>enableHttp := Some False, enableHttps := Some False\<rparr>) = Inr c \<and>
      upstream c = Some \<lparr>name = ''api_7'', servers = [\<lparr>host_upstream = ''10.0.0.1''\<rparr>]\<rparr> \<and>
      http c = None \<and> https c = None) \<and>
   \<not> truthy_string (domains (example_proxy\<lparr>domains := None\<rparr>)) \<and>
   (\<exists>c. genNginxConfig (example_proxy\<lparr>domains := None\<rparr>) = Inr c \<and>
      http c = None \<and> https c = None)"
  using no_blocks_when_disabled
      [of "example_proxy\<lparr>enableHttp := Some False, enableHttps := Some False\<rparr>"]
    no_blocks_when_disabled [of "example_proxy\<lparr>domains := None\<rparr>"]
  by (simp add: compiler_defs sample_defs)

text \<open>
  Claim C8. The compiler returns a tree for every definition and never raises. The two
  builders that read through a reference return as well under the guards they are called
  under: the SSL builder when the certificate is defined, the upstream builder when
  \<open>hasMechines\<close> holds.
\<close>

theorem genNginxConfig_never_raises:
  "(\<exists>c. genNginxConfig proxy = Inr c) \<and>
   (truthy_object (certificate proxy) \<longrightarrow> (\<exists>s. genNginxSSL proxy = Inr s)) \<and>
   (hasMechines proxy \<longrightarrow> (\<exists>u. genNginxUpstream proxy = Inr u))"
  using genNginxConfig_total [of proxy] genNginxSSL_guarded [of proxy]
    genNginxUpstream_guarded [of proxy]
  by blast

theorem genNginxConfig_never_raises_witness:
  "truthy_object (certificate example_proxy) \<and> hasMechines example_proxy \<and>
   (\<exists>c. genNginxConfig example_proxy = Inr c) \<and>
   (\<exists>s. genNginxSSL example_proxy = Inr s) \<and>
   (\<exists>u. genNginxUpstream example_proxy = Inr u) \<and>
   genNginxSSL (example_proxy\<lparr>certificate := None\<rparr>) = Inl TypeError \<and>
   genNginxUpstream (example_proxy\<lparr>application := None\<rparr>) = Inl TypeError \<and>
   (\<exists>c. genNginxConfig (example_proxy\<lparr>certificate := None, application := None\<rparr>) = Inr c)"
  using genNginxConfig_never_raises [of example_proxy]
    genNginxConfig_never_raises
      [of "example_proxy\<lparr>certificate := None, application := None\<rparr>"]
  by (simp add: compiler_defs sample_defs)

section \<open>Properties of the operations\<close>

lemma validateId_positive: "validateId v \<longleftrightarrow> positive_number v"
  by (cases v; simp add: validateId_def positive_number_def split: js_number.splits)

text \<open>Writing the configuration never fails, and calls the file system twice.\<close>

lemma apply_proxy_fst: "fst (apply_proxy env p w) = Inr ()"
  using genNginxConfig_total [of p] by (auto simp: apply_proxy_def Let_def)

lemma apply_proxy_trace:
  "trace (snd (apply_proxy env p w)) =
     trace w @ [EnsureDir (NGINX_CONF_DIR env),
                WriteFile (getNginxConfigPath env p)
                  (stringify env (projr (genNginxConfig p)))]"
  using genNginxConfig_total [of p] by (auto simp: apply_proxy_def Let_def)

lemma apply_proxy_case:
  "(case apply_proxy env p w of (Inl e, w') \<Rightarrow> f e w' | (Inr u, w') \<Rightarrow> g u w') =
     g () (snd (apply_proxy env p w))"
  using apply_proxy_fst [of env p w]
  by (cases "apply_proxy env p w") (auto split: sum.splits)

text \<open>
  Claim C9. The guard on the id is applied with inverted polarity. For an id that is a
  positive number, \<open>getInfo\<close>, \<open>create\<close>, \<open>update\<close> and \<open>remove\<close> reject with the 400
  illegal-id error and leave the world as it was: no collaborator has been called. For any
  other id (a number that is not positive, or a value that is not a number) none of the
  four rejects with that error, and each goes on to its first call of the repository:
  \<open>findOne\<close> with that id, or \<open>save\<close> in \<open>create\<close>.
\<close>

theorem validateId_inverted:
  "(positive_number i \<longrightarrow>
      getInfo env i w = (Inl (ServerError 400 illegalId), w) \<and>
      create env (opts\<lparr>id_opt := i\<rparr>) w = (Inl (ServerError 400 illegalId), w) \<and>
      update env i opts w = (Inl (ServerError 400 illegalId), w) \<and>
      remove env i w = (Inl (ServerError 400 illegalId), w)) \<and>
   (\<not> positive_number i \<longrightarrow>
      fst (getInfo env i w) \<noteq> Inl (ServerError 400 illegalId) \<and>
      fst (create env (opts\<lparr>id_opt := i\<rparr>) w) \<noteq> Inl (ServerError 400 illegalId) \<and>
      fst (update env i opts w) \<noteq> Inl (ServerError 400 illegalId) \<and>
      fst (remove env i w) \<noteq> Inl (ServerError 400 illegalId) \<and>
      (\<exists>rest. trace (snd (getInfo env i w)) = trace w @ FindOne i # rest) \<and>
      (\<exists>p rest. trace (snd (create env (opts\<lparr>id_opt := i\<rparr>) w)) =
                  trace w @ Save p # rest) \<and>
      (\<exists>rest. trace (snd (update env i opts w)) = trace w @ FindOne i # rest) \<and>
      (\<exists>rest. trace (snd (remove env i w)) = trace w @ FindOne i # rest))"
proof (intro conjI impI)
  assume "positive_number i"
  then have v: "validateId i" by (simp add: validateId_positive)
  show "getInfo env i w = (Inl (ServerError 400 illegalId), w)"
    using v by (simp add: getInfo_def)
  show "create env (opts\<lparr>id_opt := i\<rparr>) w = (Inl (ServerError 400 illegalId), w)"
    using v by (simp add: create_def)
  show "update env i opts w = (Inl (ServerError 400 illegalId), w)"
    using v by (simp add: update_def)
  show "remove env i w = (Inl (ServerError 400 illegalId), w)"
    using v by (simp add: remove_def)
next
  assume "\<not> positive_number i"
  then have v: "\<not> validateId i" by (simp add: validateId_positive)
  show "fst (getInfo env i w) \<noteq> Inl (ServerError 400 illegalId)"
    using v by (simp add: getInfo_def Let_def split: option.splits)
  show "fst (create env (opts\<lparr>id_opt := i\<rparr>) w) \<noteq> Inl (ServerError 400 illegalId)"
    using v by (simp add: create_def Let_def apply_proxy_case)
  show "fst (update env i opts w) \<noteq> Inl (ServerError 400 illegalId)"
    using v by (simp add: update_def Let_def apply_proxy_case split: option.splits)
  show "fst (remove env i w) \<noteq> Inl (ServerError 400 illegalId)"
    using v by (simp add: remove_def Let_def split: option.splits)
  show "\<exists>rest. trace (snd (getInfo env i w)) = trace w @ FindOne i # rest"
    using v by (simp add: getInfo_def Let_def split: option.splits)
  show "\<exists>p rest. trace (snd (create env (opts\<lparr>id_opt := i\<rparr>) w)) =
                  trace w @ Save p # rest"
    using v by (simp add: create_def Let_def apply_proxy_case apply_proxy_trace)
  show "\<exists>rest. trace (snd (update env i opts w)) = trace w @ FindOne i # rest"
    using v
    by (simp add: update_def Let_def apply_proxy_case apply_proxy_trace split: option.splits)
  show "\<exists>rest. trace (snd (remove env i w)) = trace w @ FindOne i # rest"
    using v by (simp add: remove_def Let_def split: option.splits)
qed

theorem validateId_inverted_witness:
  "positive_number (JNumber (Finite 7)) \<and>
   getInfo example_env (JNumber (Finite 7)) example_world =
     (Inl (ServerError 400 illegalId), example_world) \<and>
   create example_env (example_options\<lparr>id_opt := JNumber (Finite 7)\<rparr>) example_world =
     (Inl (ServerError 400 illegalId), example_world) \<and>
   update example_env (JNumber (Finite 7)) example_options example_world =
     (Inl (ServerError 400 illegalId), example_world) \<and>
   remove example_env (JNumber (Finite 7)) example_world =
     (Inl (ServerError 400 illegalId), example_world) \<and>
   \<not> positive_number (JNumber (Finite (- 1))) \<and>
   \<not> positive_number (JNumber (Finite 0)) \<and>
   \<not> positive_number (JNumber NaN) \<and>
   \<not> positive_number (JString ''7'') \<and>
   \<not> positive_number JUndefined \<and>
   getInfo example_env (JNumber (Finite (- 1))) example_world =
     (Inl (ServerError 404 noNginxProxy),
      example_world\<lparr>trace := [FindOne (JNumber (Finite (- 1)))]\<rparr>) \<and>
   getInfo example_env (JString ''7'') example_world =
     (Inr example_proxy, example_world\<lparr>trace := [FindOne (JString ''7'')]\<rparr>) \<and>
   (\<exists>rest. trace (snd (remove example_env (JString ''7'') example_world)) =
              FindOne (JString ''7'') # rest) \<and>
   (\<exists>p rest. trace (snd (create example_env example_options example_world)) =
                Save p # rest)"
  using validateId_inverted
      [of "JNumber (Finite 7)" example_env example_world example_options]
    validateId_inverted
      [of "JNumber (Finite (- 1))" example_env example_world example_options]
    validateId_inverted [of "JString ''7''" example_env example_world example_options]
    validateId_inverted [of JUndefined example_env example_world example_options]
  by (simp add: positive_number_def validateId_def getInfo_def example_env_def
      example_world_def example_options_def)

text \<open>
  Claim C10. \<open>update\<close> on a definition the repository finds. When the id passes the guard,
  the calls are \<open>findOne\<close>, one \<open>save\<close> and the two file calls, and the entity handed to
  \<open>save\<close> is the stored one with \<open>domains\<close>, \<open>enableHttp\<close>, \<open>enableHttps\<close>, \<open>application\<close>
  and \<open>certificate\<close> each replaced by the option when the option is truthy and kept
  otherwise; the id, \<open>redirectHttps\<close> and the six TLS fields are the stored ones. So a true
  \<open>enableHttp\<close> or \<open>enableHttps\<close> stays true, and present domains, application and
  certificate stay present. When the id does not pass the guard, nothing is stored at all.
\<close>

theorem update_overwrites_truthy_only:
  assumes "repo_findOne env (db w) i = Some p"
  shows "(validateId i \<longrightarrow> update env i opts w = (Inl (ServerError 400 illegalId), w)) \<and>
   (\<not> validateId i \<longrightarrow>
      (\<exists>p' file content.
         trace (snd (update env i opts w)) =
           trace w @ [FindOne i, Save p', EnsureDir (NGINX_CONF_DIR env),
                      WriteFile file content] \<and>
         p' = p\<lparr>domains := (if truthy_string (domains_opt opts)
                             then domains_opt opts else domains p),
                 enableHttp := (if truthy_bool (enableHttp_opt opts)
                                then enableHttp_opt opts else enableHttp p),
                 enableHttps := (if truthy_bool (enableHttps_opt opts)
                                 then enableHttps_opt opts else enableHttps p),
                 application := (if truthy_object (application_opt opts)
                                 then application_opt opts else application p),
                 certificate := (if truthy_object (certificate_opt opts)
                                 then certificate_opt opts else certificate p)\<rparr> \<and>
         id_proxy p' = id_proxy p \<and> redirectHttps p' = redirectHttps p \<and>
         sslCiphers p' = sslCiphers p \<and>
         sslPreferServerCiphers p' = sslPreferServerCiphers p \<and>
         sslProtocols p' = sslProtocols p \<and>
         sslSessionCache p' = sslSessionCache p \<and>
         sslSessionTimeout p' = sslSessionTimeout p \<and>
         sslStapling p' = sslStapling p \<and>
         (enableHttp p = Some True \<longrightarrow> enableHttp p' = Some True) \<and>
         (enableHttps p = Some True \<longrightarrow> enableHttps p' = Some True) \<and>
         (truthy_string (domains p) \<longrightarrow> truthy_string (domains p')) \<and>
         (application p \<noteq> None \<longrightarrow> application p' \<noteq> None) \<and>
         (certificate p \<noteq> None \<longrightarrow> certificate p' \<noteq> None)))"
proof (intro conjI impI)
  assume "validateId i"
  then show "update env i opts w = (Inl (ServerError 400 illegalId), w)"
    by (simp add: update_def)
next
  assume v: "\<not> validateId i"
  let ?p' = "p\<lparr>domains := (if truthy_string (domains_opt opts)
                             then domains_opt opts else domains p),
                 enableHttp := (if truthy_bool (enableHttp_opt opts)
                                then enableHttp_opt opts else enableHttp p),
                 enableHttps := (if truthy_bool (enableHttps_opt opts)
                                 then enableHttps_opt opts else enableHttps p),
                 application := (if truthy_object (application_opt opts)
                                 then application_opt opts else application p),
                 certificate := (if truthy_object (certificate_opt opts)
                                 then certificate_opt opts else certificate p)\<rparr>"
  have calls: "\<exists>file content. trace (snd (update env i opts w)) =
           trace w @ [FindOne i, Save ?p', EnsureDir (NGINX_CONF_DIR env),
                      WriteFile file content]"
    using v assms
    by (simp add: update_def Let_def apply_proxy_case apply_proxy_trace)
  have kept: "(enableHttp p = Some True \<longrightarrow> enableHttp ?p' = Some True) \<and>
         (enableHttps p = Some True \<longrightarrow> enableHttps ?p' = Some True) \<and>
         (truthy_string (domains p) \<longrightarrow> truthy_string (domains ?p')) \<and>
         (application p \<noteq> None \<longrightarrow> application ?p' \<noteq> None) \<and>
         (certificate p \<noteq> None \<longrightarrow> certificate ?p' \<noteq> None)"
    by (simp add: truthy_bool_def truthy_object_def)
  from calls kept show "\<exists>p' file content.
         trace (snd (update env i opts w)) =
           trace w @ [FindOne i, Save p', EnsureDir (NGINX_CONF_DIR env),
                      WriteFile file content] \<and>
         p' = ?p' \<and>
         id_proxy p' = id_proxy p \<and> redirectHttps p' = redirectHttps p \<and>
         sslCiphers p' = sslCiphers p \<and>
         sslPreferServerCiphers p' = sslPreferServerCiphers p \<and>
         sslProtocols p' = sslProtocols p \<and>
         sslSessionCache p' = sslSessionCache p \<and>
         sslSessionTimeout p' = sslSessionTimeout p \<and>
         sslStapling p' = sslStapling p \<and>
         (enableHttp p = Some True \<longrightarrow> enableHttp p' = Some True) \<and>
         (enableHttps p = Some True \<longrightarrow> enableHttps p' = Some True) \<and>
         (truthy_string (domains p) \<longrightarrow> truthy_string (domains p')) \<and>
         (application p \<noteq> None \<longrightarrow> application p' \<noteq> None) \<and>
         (certificate p \<noteq> None \<longrightarrow> certificate p' \<noteq> None)"
    by auto
qed

theorem update_overwrites_truthy_only_witness:
  "repo_findOne example_env (db example_world) (JString ''7'') = Some example_proxy \<and>
   \<not> validateId (JString ''7'') \<and>
   (\<exists>file content.
      trace (snd (update example_env (JString ''7'') example_options example_world)) =
        [FindOne (JString ''7''),
         Save (example_proxy\<lparr>certificate :=
                 Some \<lparr>crt = ''/etc/ssl/b.crt'', crtKey = ''/etc/ssl/b.key''\<rparr>\<rparr>),
         EnsureDir ''/etc/nginx/conf.d'', WriteFile file content])"
  using update_overwrites_truthy_only
    [of example_env example_world "JString ''7''" example_proxy example_options]
  by (simp add: example_env_def example_world_def example_options_def validateId_def
      truthy_bool_def truthy_string_def truthy_object_def)

end
